theory Spec2Isabelle
  imports Main "HOL-Library.Word"
begin

section \<open>Values that cross the boundary\<close>

text \<open>
  The native side hands the callbacks of \<^verbatim>\<open>PybindUtils.h\<close> a pair
  \<^verbatim>\<open>(const char *part, intptr_t size)\<close>: the \<open>size\<close> bytes found at \<open>part\<close>. The
  model takes the bytes themselves. A Python \<^verbatim>\<open>str\<close> is a sequence of Unicode code
  points, a Python \<^verbatim>\<open>bytes\<close> a sequence of bytes.
\<close>

type_synonym byte = "8 word"
type_synonym chunk = "byte list"
type_synonym py_str = "nat list"

datatype py_object = PyStr py_str | PyBytes "byte list"

text \<open>
  Three ways of not returning normally: a failed \<^verbatim>\<open>assert\<close> (the process
  aborts), a C++ exception derived from
  \<^verbatim>\<open>std::exception\<close> (what pybind11 throws), and any other C++ exception. An
  operation returns its outcome together with the state it leaves behind, since a
  C++ exception does not undo the assignments made before it.
\<close>

datatype error =
  Assertion_failure string
  | Std_exception string
  | Other_exception string

subsection \<open>The assert macro\<close>

text \<open>
  \<^verbatim>\<open>assert(cond && "message")\<close> of \<^verbatim>\<open><cassert>\<close> depends on the build: where
  \<^verbatim>\<open>NDEBUG\<close> is defined it expands to nothing, elsewhere it aborts the process when
  \<open>cond\<close> is false. The source fixes no build, so the flag is a parameter of every
  function that asserts.
\<close>

definition c_assert :: "bool \<Rightarrow> bool \<Rightarrow> string \<Rightarrow> error option" where
  "c_assert ndebug cond msg =
     (if ndebug then None
      else if cond then None
      else Some (Assertion_failure msg))"

subsection \<open>The host string constructor\<close>

text \<open>
  \<^verbatim>\<open>pybind11::str(const char *, size_t)\<close> is not part of this repository. The source
  says of it "Decodes as UTF-8 by default": the constructor calls CPython's
  \<^verbatim>\<open>PyUnicode_FromStringAndSize\<close>, a strict UTF-8 decoder, and throws
  \<^verbatim>\<open>std::runtime_error("Could not allocate string object!")\<close> when that returns
  null. The decoder below accepts exactly the well-formed byte sequences of the
  Unicode standard (no overlong forms, no surrogates, nothing above U+10FFFF).
\<close>

definition utf8_width :: "byte \<Rightarrow> nat" where
  "utf8_width b0 =
     (if b0 < 0x80 then 1
      else if 0xC2 \<le> b0 \<and> b0 \<le> 0xDF then 2
      else if 0xE0 \<le> b0 \<and> b0 \<le> 0xEF then 3
      else if 0xF0 \<le> b0 \<and> b0 \<le> 0xF4 then 4
      else 0)"

definition cont :: "byte \<Rightarrow> bool" where
  "cont b = (0x80 \<le> b \<and> b \<le> 0xBF)"

definition second_of_3 :: "byte \<Rightarrow> byte \<Rightarrow> bool" where
  "second_of_3 b0 b1 =
     (if b0 = 0xE0 then 0xA0 \<le> b1 \<and> b1 \<le> 0xBF
      else if b0 = 0xED then 0x80 \<le> b1 \<and> b1 \<le> 0x9F
      else cont b1)"

definition second_of_4 :: "byte \<Rightarrow> byte \<Rightarrow> bool" where
  "second_of_4 b0 b1 =
     (if b0 = 0xF0 then 0x90 \<le> b1 \<and> b1 \<le> 0xBF
      else if b0 = 0xF4 then 0x80 \<le> b1 \<and> b1 \<le> 0x8F
      else cont b1)"

definition low6 :: "byte \<Rightarrow> nat" where
  "low6 b = unat b mod 64"

definition cp2 :: "byte \<Rightarrow> byte \<Rightarrow> nat" where
  "cp2 b0 b1 = unat b0 mod 32 * 64 + low6 b1"

definition cp3 :: "byte \<Rightarrow> byte \<Rightarrow> byte \<Rightarrow> nat" where
  "cp3 b0 b1 b2 = unat b0 mod 16 * 4096 + low6 b1 * 64 + low6 b2"

definition cp4 :: "byte \<Rightarrow> byte \<Rightarrow> byte \<Rightarrow> byte \<Rightarrow> nat" where
  "cp4 b0 b1 b2 b3 = unat b0 mod 8 * 262144 + low6 b1 * 4096 + low6 b2 * 64 + low6 b3"

fun utf8_decode :: "chunk \<Rightarrow> py_str option" where
  "utf8_decode [] = Some []"
| "utf8_decode (b0 # bs) =
     (if utf8_width b0 = 1 then map_option ((#) (unat b0)) (utf8_decode bs)
      else if utf8_width b0 = 2 then
        (case bs of
           b1 # r \<Rightarrow>
             if cont b1 then map_option ((#) (cp2 b0 b1)) (utf8_decode r) else None
         | _ \<Rightarrow> None)
      else if utf8_width b0 = 3 then
        (case bs of
           b1 # b2 # r \<Rightarrow>
             if second_of_3 b0 b1 \<and> cont b2
             then map_option ((#) (cp3 b0 b1 b2)) (utf8_decode r)
             else None
         | _ \<Rightarrow> None)
      else if utf8_width b0 = 4 then
        (case bs of
           b1 # b2 # b3 # r \<Rightarrow>
             if second_of_4 b0 b1 \<and> cont b2 \<and> cont b3
             then map_option ((#) (cp4 b0 b1 b2 b3)) (utf8_decode r)
             else None
         | _ \<Rightarrow> None)
      else None)"

definition well_formed_utf8 :: "chunk \<Rightarrow> bool" where
  "well_formed_utf8 c = (case utf8_decode c of None \<Rightarrow> False | Some s \<Rightarrow> True)"

definition pybind11_str :: "chunk \<Rightarrow> error + py_str" where
  "pybind11_str part =
     (case utf8_decode part of
        None \<Rightarrow> Inl (Std_exception ''Could not allocate string object!'')
      | Some s \<Rightarrow> Inr s)"

text \<open>\<^verbatim>\<open>pybind11::bytes(const char *, size_t)\<close> copies the bytes as they are.\<close>

definition pybind11_bytes :: "chunk \<Rightarrow> byte list" where
  "pybind11_bytes part = part"

text \<open>Python's \<^verbatim>\<open>delim.join(parts)\<close> on a list of strings.\<close>

fun str_join :: "py_str \<Rightarrow> py_str list \<Rightarrow> py_str" where
  "str_join delim [] = []"
| "str_join delim [p] = p"
| "str_join delim (p # q # ps) = p @ delim @ str_join delim (q # ps)"

subsection \<open>The native string-emitting operation\<close>

text \<open>
  The caller of an \<^verbatim>\<open>MlirStringCallback\<close> invokes it synchronously, once per chunk
  and in order, on the user data it was given. An exception or an abort in one
  invocation ends the delivery there.
\<close>

fun deliver ::
  "(chunk \<Rightarrow> 's \<Rightarrow> (error + unit) \<times> 's) \<Rightarrow> chunk list \<Rightarrow> 's \<Rightarrow> (error + unit) \<times> 's"
where
  "deliver cb [] s = (Inr (), s)"
| "deliver cb (c # cs) s =
     (case cb c s of
        (Inl e, s') \<Rightarrow> (Inl e, s')
      | (Inr u, s') \<Rightarrow> deliver cb cs s')"

section \<open>Defaulting: the resolving reference wrapper\<close>

text \<open>
  A reference is the address of a live object, a pointer is an address or
  \<^verbatim>\<open>nullptr\<close> (\<open>None\<close>). The member initialiser of \<^verbatim>\<open>referrent\<close> is \<^verbatim>\<open>nullptr\<close>.
\<close>

type_synonym addr = nat

record Defaulting =
  referrent :: "addr option"

definition Defaulting_default :: Defaulting where
  "Defaulting_default = \<lparr>referrent = None\<rparr>"

definition Defaulting_of :: "addr \<Rightarrow> Defaulting" where
  "Defaulting_of r = \<lparr>referrent = Some r\<rparr>"

definition get :: "Defaulting \<Rightarrow> addr option" where
  "get d = referrent d"

definition arrow :: "Defaulting \<Rightarrow> addr option" where
  "arrow d = referrent d"

subsection \<open>MlirDefaultingCaster\<close>

text \<open>
  A \<^verbatim>\<open>pybind11::handle\<close> is \<^verbatim>\<open>None\<close> or some other Python object. The macro
  \<^verbatim>\<open>PYBIND11_TYPE_CASTER\<close> gives the caster its member \<^verbatim>\<open>value\<close>, default
  constructed. \<^verbatim>\<open>DefaultingTy::resolve\<close> and \<^verbatim>\<open>pybind11::cast\<close> are supplied by the
  derived type and by pybind11: they are parameters here, acting on a state \<open>'w\<close>
  of the process that they may read and change.
\<close>

datatype handle = Py_None | Py_Object nat

definition is_none :: "handle \<Rightarrow> bool" where
  "is_none src = (case src of Py_None \<Rightarrow> True | Py_Object obj \<Rightarrow> False)"

record MlirDefaultingCaster =
  caster_value :: Defaulting

definition MlirDefaultingCaster_new :: MlirDefaultingCaster where
  "MlirDefaultingCaster_new = \<lparr>caster_value = Defaulting_default\<rparr>"

definition load ::
  "('w \<Rightarrow> (error + addr) \<times> 'w) \<Rightarrow> (handle \<Rightarrow> 'w \<Rightarrow> (error + addr) \<times> 'w) \<Rightarrow>
   handle \<Rightarrow> MlirDefaultingCaster \<Rightarrow> 'w \<Rightarrow> (error + bool) \<times> MlirDefaultingCaster \<times> 'w"
where
  "load resolve cast_ref src c w =
     (if is_none src then
        (case resolve w of
           (Inl e, w') \<Rightarrow> (Inl e, c, w')
         | (Inr r, w') \<Rightarrow> (Inr True, c\<lparr>caster_value := Defaulting_of r\<rparr>, w'))
      else
        (case cast_ref src w of
           (Inr r, w') \<Rightarrow> (Inr True, c\<lparr>caster_value := Defaulting_of r\<rparr>, w')
         | (Inl (Std_exception msg), w') \<Rightarrow> (Inr False, c, w')
         | (Inl e, w') \<Rightarrow> (Inl e, c, w')))"

section \<open>PyPrintAccumulator\<close>

record PyPrintAccumulator =
  parts :: "py_str list"

definition PyPrintAccumulator_new :: PyPrintAccumulator where
  "PyPrintAccumulator_new = \<lparr>parts = []\<rparr>"

definition PyPrintAccumulator_callback ::
  "chunk \<Rightarrow> PyPrintAccumulator \<Rightarrow> (error + unit) \<times> PyPrintAccumulator"
where
  "PyPrintAccumulator_callback part printAccum =
     (case pybind11_str part of
        Inl e \<Rightarrow> (Inl e, printAccum)
      | Inr pyPart \<Rightarrow> (Inr (), printAccum\<lparr>parts := parts printAccum @ [pyPart]\<rparr>))"

definition join :: "PyPrintAccumulator \<Rightarrow> (error + py_str) \<times> PyPrintAccumulator" where
  "join acc =
     (case pybind11_str [] of
        Inl e \<Rightarrow> (Inl e, acc)
      | Inr delim \<Rightarrow> (Inr (str_join delim (parts acc)), acc))"

section \<open>PyFileAccumulator\<close>

text \<open>
  The state of the host that the callback touches: how many times the calling
  thread holds the interpreter lock (\<^verbatim>\<open>gil_scoped_acquire\<close> nests), and the state of
  the sink behind the \<^verbatim>\<open>write\<close> attribute of the file object.
\<close>

record 's interp =
  gil_depth :: nat
  sink :: 's

definition gil_scoped_acquire_ctor :: "'s interp \<Rightarrow> 's interp" where
  "gil_scoped_acquire_ctor h = h\<lparr>gil_depth := gil_depth h + 1\<rparr>"

definition gil_scoped_acquire_dtor :: "'s interp \<Rightarrow> 's interp" where
  "gil_scoped_acquire_dtor h = h\<lparr>gil_depth := gil_depth h - 1\<rparr>"

type_synonym 's py_callable = "py_object \<Rightarrow> 's interp \<Rightarrow> (error + unit) \<times> 's interp"

record 's PyFileAccumulator =
  pyWriteFunction :: "'s py_callable"
  binary :: bool

definition PyFileAccumulator_new :: "'s py_callable \<Rightarrow> bool \<Rightarrow> 's PyFileAccumulator" where
  "PyFileAccumulator_new write_attr b = \<lparr>pyWriteFunction = write_attr, binary = b\<rparr>"

text \<open>
  The first statement of the callback, \<^verbatim>\<open>pybind11::gil_scoped_acquire();\<close>, names no
  variable: it constructs a temporary, whose destructor runs at the end of that
  statement, before the chunk is converted and written.
\<close>

definition PyFileAccumulator_callback ::
  "'s PyFileAccumulator \<Rightarrow> chunk \<Rightarrow> 's interp \<Rightarrow> (error + unit) \<times> 's interp"
where
  "PyFileAccumulator_callback accum part h =
     (let h1 = gil_scoped_acquire_dtor (gil_scoped_acquire_ctor h) in
      if binary accum then pyWriteFunction accum (PyBytes (pybind11_bytes part)) h1
      else
        (case pybind11_str part of
           Inl e \<Rightarrow> (Inl e, h1)
         | Inr pyStr \<Rightarrow> pyWriteFunction accum (PyStr pyStr) h1))"

text \<open>
  Two sinks to run the callback on: an in-memory sink that records the argument of
  every \<^verbatim>\<open>write\<close>, and one that records whether the interpreter lock is held when
  \<^verbatim>\<open>write\<close> is entered.
\<close>

definition recording_write :: "(py_object list) py_callable" where
  "recording_write arg h = (Inr (), h\<lparr>sink := sink h @ [arg]\<rparr>)"

definition gil_probe_write :: "(bool list) py_callable" where
  "gil_probe_write arg h = (Inr (), h\<lparr>sink := sink h @ [0 < gil_depth h]\<rparr>)"

section \<open>PySinglePartStringAccumulator\<close>

text \<open>
  The member \<^verbatim>\<open>value\<close> is a \<^verbatim>\<open>pybind11::str\<close>: default constructed it is the empty
  string, moved from it is the null handle (\<open>None\<close>).
\<close>

record PySinglePartStringAccumulator =
  str_value :: "py_str option"
  invoked :: bool

definition PySinglePartStringAccumulator_new :: PySinglePartStringAccumulator where
  "PySinglePartStringAccumulator_new = \<lparr>str_value = Some [], invoked = False\<rparr>"

definition PySinglePartStringAccumulator_callback ::
  "bool \<Rightarrow> chunk \<Rightarrow> PySinglePartStringAccumulator \<Rightarrow>
   (error + unit) \<times> PySinglePartStringAccumulator"
where
  "PySinglePartStringAccumulator_callback ndebug part accum =
     (case c_assert ndebug (\<not> invoked accum)
             ''PySinglePartStringAccumulator called back multiple times'' of
        Some e \<Rightarrow> (Inl e, accum)
      | None \<Rightarrow>
          (let accum1 = accum\<lparr>invoked := True\<rparr> in
           case pybind11_str part of
             Inl e \<Rightarrow> (Inl e, accum1)
           | Inr s \<Rightarrow> (Inr (), accum1\<lparr>str_value := Some s\<rparr>)))"

definition takeValue ::
  "bool \<Rightarrow> PySinglePartStringAccumulator \<Rightarrow>
   (error + py_str option) \<times> PySinglePartStringAccumulator"
where
  "takeValue ndebug accum =
     (case c_assert ndebug (invoked accum)
             ''PySinglePartStringAccumulator not called back'' of
        Some e \<Rightarrow> (Inl e, accum)
      | None \<Rightarrow> (Inr (str_value accum), accum\<lparr>str_value := None\<rparr>))"

section \<open>Properties of the decoder and of delivery\<close>

lemmas utf8_defs = utf8_width_def cont_def second_of_3_def second_of_4_def low6_def
  cp2_def cp3_def cp4_def

lemma utf8_decode_append:
  "utf8_decode a = Some x \<Longrightarrow>
   utf8_decode (a @ b) = (case utf8_decode b of None \<Rightarrow> None | Some y \<Rightarrow> Some (x @ y))"
proof (induction a arbitrary: x rule: utf8_decode.induct)
  case 1
  then show ?case by (simp split: option.splits)
next
  case (2 b0 bs)
  note eq = \<open>utf8_decode (b0 # bs) = Some x\<close>
  consider (w1) "utf8_width b0 = 1" | (w2) "utf8_width b0 = 2" | (w3) "utf8_width b0 = 3"
    | (w4) "utf8_width b0 = 4" | (bad) "utf8_width b0 \<notin> {1, 2, 3, 4}"
    by auto
  then show ?case
  proof cases
    case w1
    with eq obtain z where z: "utf8_decode bs = Some z" "x = unat b0 # z"
      by auto
    from "2.IH"(1) [OF w1 z(1)] w1 z(2) show ?thesis
      by (simp split: option.splits)
  next
    case w2
    with eq obtain b1 r z where z: "bs = b1 # r" "cont b1" "utf8_decode r = Some z"
      "x = cp2 b0 b1 # z"
      by (cases bs) (auto split: if_splits)
    have "utf8_decode (r @ b) = (case utf8_decode b of None \<Rightarrow> None | Some y \<Rightarrow> Some (z @ y))"
      using "2.IH"(2) [OF _ w2 z(1) z(2) z(3)] w2 by simp
    with w2 z show ?thesis
      by (simp split: option.splits)
  next
    case w3
    with eq obtain b1 b2 r z where z: "bs = b1 # b2 # r" "second_of_3 b0 b1 \<and> cont b2"
      "utf8_decode r = Some z" "x = cp3 b0 b1 b2 # z"
      by (cases bs; cases "tl bs") (auto split: if_splits)
    obtain t where t: "bs = b1 # t" "t = b2 # r" using z(1) by simp
    have "utf8_decode (r @ b) = (case utf8_decode b of None \<Rightarrow> None | Some y \<Rightarrow> Some (z @ y))"
      using "2.IH"(3) [OF _ _ w3 t(1) t(2) z(2) z(3)] w3 by simp
    with w3 z show ?thesis
      by (simp split: option.splits)
  next
    case w4
    with eq obtain b1 b2 b3 r z where z: "bs = b1 # b2 # b3 # r"
      "second_of_4 b0 b1 \<and> cont b2 \<and> cont b3"
      "utf8_decode r = Some z" "x = cp4 b0 b1 b2 b3 # z"
      by (cases bs; cases "tl bs"; cases "tl (tl bs)") (auto split: if_splits)
    obtain t u where t: "bs = b1 # t" "t = b2 # u" "u = b3 # r" using z(1) by simp
    have "utf8_decode (r @ b) = (case utf8_decode b of None \<Rightarrow> None | Some y \<Rightarrow> Some (z @ y))"
      using "2.IH"(4) [OF _ _ _ w4 t(1) t(2) t(3) z(2) z(3)] w4 by simp
    with w4 z show ?thesis
      by (simp split: option.splits)
  next
    case bad
    with eq show ?thesis by simp
  qed
qed

lemma utf8_decode_concat:
  "list_all well_formed_utf8 cs \<Longrightarrow>
   utf8_decode (concat cs) = Some (concat (map (\<lambda>c. the (utf8_decode c)) cs))"
proof (induction cs)
  case Nil
  show ?case by simp
next
  case (Cons c cs)
  from Cons.prems obtain x where x: "utf8_decode c = Some x"
    by (auto simp: well_formed_utf8_def split: option.splits)
  from Cons have rest: "utf8_decode (concat cs) = Some (concat (map (\<lambda>c. the (utf8_decode c)) cs))"
    by simp
  show ?case
    using utf8_decode_append [OF x, of "concat cs"] rest x by simp
qed

lemma str_join_empty: "str_join [] ps = concat ps"
proof (induction ps)
  case Nil
  show ?case by simp
next
  case (Cons p ps)
  then show ?case by (cases ps) simp_all
qed

lemma pybind11_str_empty: "pybind11_str [] = Inr []"
  by (simp add: pybind11_str_def)

lemma join_concat: "join acc = (Inr (concat (parts acc)), acc)"
  by (simp add: join_def pybind11_str_empty str_join_empty)

lemma print_callback_well_formed:
  "well_formed_utf8 c \<Longrightarrow>
   PyPrintAccumulator_callback c acc =
     (Inr (), acc\<lparr>parts := parts acc @ [the (utf8_decode c)]\<rparr>)"
  by (auto simp: PyPrintAccumulator_callback_def pybind11_str_def well_formed_utf8_def
      split: option.splits)

lemma deliver_print_well_formed:
  "list_all well_formed_utf8 cs \<Longrightarrow>
   deliver PyPrintAccumulator_callback cs acc =
     (Inr (), acc\<lparr>parts := parts acc @ map (\<lambda>c. the (utf8_decode c)) cs\<rparr>)"
proof (induction cs arbitrary: acc)
  case Nil
  show ?case by simp
next
  case (Cons c cs)
  then show ?case
    by (simp add: print_callback_well_formed)
qed

section \<open>The joining accumulator\<close>

text \<open>
  Claim C1, as amended. For every sequence of chunks each of which is well-formed
  UTF-8 on its own (the empty sequence and zero-length chunks included), delivering
  them to the callback of a fresh PyPrintAccumulator succeeds, leaves one part per
  chunk in arrival order, and \<open>join\<close> returns the UTF-8 decoding of the
  concatenation of the chunks, which is the concatenation of the parts.
\<close>
theorem join_is_decoded_concatenation:
  assumes "list_all well_formed_utf8 cs"
  shows "\<exists>acc. deliver PyPrintAccumulator_callback cs PyPrintAccumulator_new = (Inr (), acc)
           \<and> parts acc = map (\<lambda>c. the (utf8_decode c)) cs
           \<and> utf8_decode (concat cs) = Some (concat (parts acc))
           \<and> join acc = (Inr (the (utf8_decode (concat cs))), acc)"
  using deliver_print_well_formed [OF assms, of PyPrintAccumulator_new]
    utf8_decode_concat [OF assms]
  by (simp add: join_concat PyPrintAccumulator_new_def)

text \<open>
  The theorem at the chunks \<open>He\<close>, the empty chunk, \<open>llo\<close> and a two-byte
  character.
\<close>

theorem join_is_decoded_concatenation_witness:
  "list_all well_formed_utf8 [[0x48, 0x65], [], [0x6C, 0x6C, 0x6F], [0xC3, 0xA9]]
   \<and> (\<exists>acc. deliver PyPrintAccumulator_callback
                [[0x48, 0x65], [], [0x6C, 0x6C, 0x6F], [0xC3, 0xA9]] PyPrintAccumulator_new
              = (Inr (), acc)
          \<and> parts acc = [[72, 101], [], [108, 108, 111], [233]]
          \<and> join acc = (Inr [72, 101, 108, 108, 111, 233], acc))"
proof -
  have wf: "list_all well_formed_utf8 [[0x48, 0x65], [], [0x6C, 0x6C, 0x6F], [0xC3, 0xA9]]"
    by (simp add: well_formed_utf8_def utf8_defs)
  have d: "map (\<lambda>c. the (utf8_decode c)) [[0x48, 0x65], [], [0x6C, 0x6C, 0x6F], [0xC3, 0xA9]]
           = [[72, 101], [], [108, 108, 111], [233]]"
    by (simp add: utf8_defs)
  from join_is_decoded_concatenation [OF wf] obtain acc where
    acc: "deliver PyPrintAccumulator_callback
            [[0x48, 0x65], [], [0x6C, 0x6C, 0x6F], [0xC3, 0xA9]] PyPrintAccumulator_new
          = (Inr (), acc)"
      "parts acc = map (\<lambda>c. the (utf8_decode c)) [[0x48, 0x65], [], [0x6C, 0x6C, 0x6F], [0xC3, 0xA9]]"
      "utf8_decode (concat [[0x48, 0x65], [], [0x6C, 0x6C, 0x6F], [0xC3, 0xA9]])
         = Some (concat (parts acc))"
      "join acc
         = (Inr (the (utf8_decode (concat [[0x48, 0x65], [], [0x6C, 0x6C, 0x6F], [0xC3, 0xA9]]))),
            acc)"
    by blast
  from acc(2) d have p: "parts acc = [[72, 101], [], [108, 108, 111], [233]]"
    by simp
  from acc(3) acc(4) p have "join acc = (Inr [72, 101, 108, 108, 111, 233], acc)"
    by simp
  with wf acc(1) p show ?thesis
    by blast
qed

text \<open>
  Claim C1 as stated, for every sequence of chunks, fails where a character is
  split between two chunks: the concatenation \<open>C3 A9\<close> decodes to U+00E9, but the
  first callback throws on the lone byte \<open>C3\<close>, and the parts left behind join to
  the empty string.
\<close>

theorem join_split_character_counterexample:
  "utf8_decode (concat [[0xC3], [0xA9]]) = Some [233]
   \<and> deliver PyPrintAccumulator_callback [[0xC3], [0xA9]] PyPrintAccumulator_new
       = (Inl (Std_exception ''Could not allocate string object!''), \<lparr>parts = []\<rparr>)
   \<and> join \<lparr>parts = []\<rparr> = (Inr [], \<lparr>parts = []\<rparr>)"
  by (simp add: utf8_defs PyPrintAccumulator_callback_def pybind11_str_def
      PyPrintAccumulator_new_def join_def)

text \<open>
  Claim C8. In every state of the PyPrintAccumulator, \<open>join\<close> called twice in
  succession, with no callback in between, returns the same string both times, and
  the parts are the same after the first and after the second call as before.
\<close>

theorem join_twice_same_result:
  "fst (join (snd (join acc))) = fst (join acc)
   \<and> parts (snd (join acc)) = parts acc
   \<and> parts (snd (join (snd (join acc)))) = parts acc"
  by (simp add: join_def pybind11_str_def)

section \<open>The stream-writing accumulator\<close>

lemma gil_temporary: "gil_scoped_acquire_dtor (gil_scoped_acquire_ctor h) = h"
  by (simp add: gil_scoped_acquire_dtor_def gil_scoped_acquire_ctor_def)

lemma file_callback_binary:
  "binary accum \<Longrightarrow>
   PyFileAccumulator_callback accum part h = pyWriteFunction accum (PyBytes part) h"
  by (simp add: PyFileAccumulator_callback_def gil_temporary pybind11_bytes_def)

lemma file_callback_text:
  "\<not> binary accum \<Longrightarrow> well_formed_utf8 part \<Longrightarrow>
   PyFileAccumulator_callback accum part h =
     pyWriteFunction accum (PyStr (the (utf8_decode part))) h"
  by (auto simp: PyFileAccumulator_callback_def gil_temporary pybind11_str_def
      well_formed_utf8_def split: option.splits)

text \<open>
  Claim C4. In every callback invocation of the PyFileAccumulator the interpreter
  lock is to be held while the chunk is converted and \<open>write\<close> is called. The code
  does not do so: invoked in binary mode on the bytes \<open>DE AD\<close>, and in text mode on
  \<open>hi\<close>, by a thread that does not hold the lock, \<open>write\<close> is entered with the lock
  not held, the temporary guard having been destroyed before.
\<close>

theorem gil_released_before_write:
  "PyFileAccumulator_callback (PyFileAccumulator_new gil_probe_write True) [0xDE, 0xAD]
     \<lparr>gil_depth = 0, sink = []\<rparr>
     = (Inr (), \<lparr>gil_depth = 0, sink = [False]\<rparr>)
   \<and> PyFileAccumulator_callback (PyFileAccumulator_new gil_probe_write False) [0x68, 0x69]
     \<lparr>gil_depth = 0, sink = []\<rparr>
     = (Inr (), \<lparr>gil_depth = 0, sink = [False]\<rparr>)"
  by (simp add: PyFileAccumulator_callback_def PyFileAccumulator_new_def
      gil_probe_write_def gil_scoped_acquire_ctor_def gil_scoped_acquire_dtor_def
      pybind11_bytes_def pybind11_str_def utf8_width_def)

text \<open>
  Claim C5, as amended. In binary mode for every sequence of chunks, and in text mode
  for every sequence of chunks each of which is well-formed UTF-8, delivering the
  chunks to the callback does what calling \<open>write\<close> once per chunk does, in the order
  of the chunks: in binary mode on the bytes of the chunk, in text mode on its UTF-8
  decoding. This holds whatever \<open>write\<close> does, raising included.
\<close>

theorem file_callback_one_write_per_chunk:
  assumes "binary accum \<or> list_all well_formed_utf8 cs"
  shows "deliver (PyFileAccumulator_callback accum) cs h =
         deliver (\<lambda>c. pyWriteFunction accum
                         (if binary accum then PyBytes c else PyStr (the (utf8_decode c))))
           cs h"
  using assms
proof (induction cs arbitrary: h)
  case Nil
  show ?case by simp
next
  case (Cons c cs)
  have step: "PyFileAccumulator_callback accum c h =
              pyWriteFunction accum
                (if binary accum then PyBytes c else PyStr (the (utf8_decode c))) h"
    using Cons.prems by (auto simp: file_callback_binary file_callback_text)
  have rest: "binary accum \<or> list_all well_formed_utf8 cs"
    using Cons.prems by auto
  show ?case
    by (simp add: step Cons.IH [OF rest] split: prod.splits sum.splits)
qed

text \<open>
  The theorem on a sink that records its arguments, in binary mode, at the chunks
  \<open>DE AD BE EF\<close>, the empty chunk and a NUL byte.
\<close>

theorem file_callback_one_write_per_chunk_witness:
  "(binary (PyFileAccumulator_new recording_write True)
      \<or> list_all well_formed_utf8 [[0xDE, 0xAD, 0xBE, 0xEF], [], [0x00]])
   \<and> deliver (PyFileAccumulator_callback (PyFileAccumulator_new recording_write True))
        [[0xDE, 0xAD, 0xBE, 0xEF], [], [0x00]] \<lparr>gil_depth = 1, sink = []\<rparr>
     = (Inr (), \<lparr>gil_depth = 1,
                  sink = [PyBytes [0xDE, 0xAD, 0xBE, 0xEF], PyBytes [], PyBytes [0x00]]\<rparr>)"
proof -
  have b: "binary (PyFileAccumulator_new recording_write True)
             \<or> list_all well_formed_utf8 [[0xDE, 0xAD, 0xBE, 0xEF], [], [0x00]]"
    by (simp add: PyFileAccumulator_new_def)
  from file_callback_one_write_per_chunk [OF b, of "\<lparr>gil_depth = 1, sink = []\<rparr>"] b
  show ?thesis
    by (simp add: PyFileAccumulator_new_def recording_write_def)
qed

text \<open>
  Claim C5 as stated, for every chunk, fails in text mode at a chunk that is not
  well-formed UTF-8: on the lone byte \<open>C3\<close> the callback throws while converting and
  \<open>write\<close> is not called.
\<close>

theorem file_callback_text_malformed_counterexample:
  "PyFileAccumulator_callback (PyFileAccumulator_new recording_write False) [0xC3]
     \<lparr>gil_depth = 1, sink = []\<rparr>
   = (Inl (Std_exception ''Could not allocate string object!''),
      \<lparr>gil_depth = 1, sink = []\<rparr>)"
  by (simp add: PyFileAccumulator_callback_def PyFileAccumulator_new_def
      gil_scoped_acquire_ctor_def gil_scoped_acquire_dtor_def pybind11_str_def
      utf8_width_def)

section \<open>The single-chunk accumulator\<close>

text \<open>
  Claim C2, as amended. In every build, one callback invocation on a fresh
  PySinglePartStringAccumulator, on a chunk that decodes to \<open>s\<close>, followed by
  \<open>takeValue\<close> returns \<open>s\<close>. In a build with assertions compiled in (\<^verbatim>\<open>NDEBUG\<close> not
  defined), \<open>takeValue\<close> with no callback invocation before it fails its assertion,
  and a second callback invocation fails its assertion, whatever the two chunks
  are.
\<close>

theorem single_chunk_protocol:
  "(utf8_decode c = Some s \<longrightarrow>
      (\<exists>a. PySinglePartStringAccumulator_callback ndebug c PySinglePartStringAccumulator_new
             = (Inr (), a)
           \<and> fst (takeValue ndebug a) = Inr (Some s)))
   \<and> (\<not> ndebug \<longrightarrow>
        fst (takeValue ndebug PySinglePartStringAccumulator_new)
          = Inl (Assertion_failure ''PySinglePartStringAccumulator not called back'')
        \<and> fst (PySinglePartStringAccumulator_callback ndebug c2
                 (snd (PySinglePartStringAccumulator_callback ndebug c1
                         PySinglePartStringAccumulator_new)))
          = Inl (Assertion_failure
                   ''PySinglePartStringAccumulator called back multiple times''))"
  by (simp add: PySinglePartStringAccumulator_callback_def c_assert_def
      PySinglePartStringAccumulator_new_def takeValue_def pybind11_str_def
      split: option.splits)

text \<open>
  The theorem in a build with assertions, at the chunks \<open>hi\<close> and \<open>yo\<close>.
\<close>

theorem single_chunk_protocol_witness:
  "utf8_decode [0x68, 0x69] = Some [104, 105]
   \<and> (\<exists>a. PySinglePartStringAccumulator_callback False [0x68, 0x69]
              PySinglePartStringAccumulator_new = (Inr (), a)
          \<and> fst (takeValue False a) = Inr (Some [104, 105]))
   \<and> \<not> False
   \<and> fst (takeValue False PySinglePartStringAccumulator_new)
       = Inl (Assertion_failure ''PySinglePartStringAccumulator not called back'')
   \<and> fst (PySinglePartStringAccumulator_callback False [0x79, 0x6F]
            (snd (PySinglePartStringAccumulator_callback False [0x68, 0x69]
                    PySinglePartStringAccumulator_new)))
       = Inl (Assertion_failure ''PySinglePartStringAccumulator called back multiple times'')"
proof -
  have d: "utf8_decode [0x68, 0x69] = Some [104, 105]"
    by (simp add: utf8_width_def)
  with single_chunk_protocol [of "[0x68, 0x69]" "[104, 105]" False "[0x79, 0x6F]" "[0x68, 0x69]"]
  show ?thesis
    by blast
qed

text \<open>
  Claim C2 as stated, with no condition on the build, fails where \<^verbatim>\<open>NDEBUG\<close> is
  defined: \<open>takeValue\<close> on a fresh accumulator returns the default constructed empty
  string, and a second callback invocation returns normally and overwrites the
  value, which \<open>takeValue\<close> then returns.
\<close>

theorem single_chunk_ndebug_counterexample:
  "fst (takeValue True PySinglePartStringAccumulator_new) = Inr (Some [])
   \<and> PySinglePartStringAccumulator_callback True [0x79, 0x6F]
       (snd (PySinglePartStringAccumulator_callback True [0x68, 0x69]
               PySinglePartStringAccumulator_new))
     = (Inr (), \<lparr>str_value = Some [121, 111], invoked = True\<rparr>)
   \<and> fst (takeValue True \<lparr>str_value = Some [121, 111], invoked = True\<rparr>)
     = Inr (Some [121, 111])"
  by (simp add: PySinglePartStringAccumulator_callback_def c_assert_def
      PySinglePartStringAccumulator_new_def takeValue_def pybind11_str_def utf8_width_def)

text \<open>
  Claim C10. In every build, one callback invocation with a zero-length chunk is
  accepted: it sets the flag and stores the empty string, and \<open>takeValue\<close> then
  returns the empty string.
\<close>

theorem single_chunk_empty_chunk:
  "PySinglePartStringAccumulator_callback ndebug [] PySinglePartStringAccumulator_new
     = (Inr (), \<lparr>str_value = Some [], invoked = True\<rparr>)
   \<and> takeValue ndebug \<lparr>str_value = Some [], invoked = True\<rparr>
     = (Inr (Some []), \<lparr>str_value = None, invoked = True\<rparr>)"
  by (simp add: PySinglePartStringAccumulator_callback_def c_assert_def
      PySinglePartStringAccumulator_new_def takeValue_def pybind11_str_def)

section \<open>The resolving reference wrapper and its caster\<close>

text \<open>
  Claim C9. A default constructed Defaulting holds the null pointer: \<open>get\<close> and
  \<open>operator->\<close> both return it, and in every state the two return the same
  pointer.
\<close>

theorem defaulting_default_is_null:
  "get Defaulting_default = None
   \<and> arrow Defaulting_default = None
   \<and> get d = arrow d"
  by (simp add: get_def arrow_def Defaulting_default_def)

text \<open>
  Claim C3. When \<open>load\<close> is given \<^verbatim>\<open>None\<close>, the resolver runs (the state of the
  process after \<open>load\<close> is the one the resolver leaves), and an error raised by the
  resolver, of whatever kind, is the outcome of \<open>load\<close>: it is not turned into the
  result \<open>false\<close>, and the caster's value is left as it was.
\<close>

theorem load_none_resolver_error_propagates:
  assumes "is_none src"
  shows "snd (snd (load resolve cast_ref src c w)) = snd (resolve w)
         \<and> (fst (resolve w) = Inl e \<longrightarrow>
              fst (load resolve cast_ref src c w) = Inl e
              \<and> fst (snd (load resolve cast_ref src c w)) = c)"
  using assms by (cases "resolve w") (auto simp: load_def split: sum.splits)

text \<open>
  The theorem at a resolver that counts its calls and then throws.
\<close>

theorem load_none_resolver_error_propagates_witness:
  "is_none Py_None
   \<and> load (\<lambda>w. (Inl (Std_exception ''no current context''), Suc w))
        (\<lambda>src w. (Inr 7, w)) Py_None MlirDefaultingCaster_new (0::nat)
     = (Inl (Std_exception ''no current context''), MlirDefaultingCaster_new, 1)"
proof -
  have n: "is_none Py_None"
    by (simp add: is_none_def)
  from load_none_resolver_error_propagates [OF n,
      of "\<lambda>w. (Inl (Std_exception ''no current context''), Suc w)" "\<lambda>src w. (Inr 7, w)"
         MlirDefaultingCaster_new "0::nat" "Std_exception ''no current context''"]
  have "snd (snd (load (\<lambda>w. (Inl (Std_exception ''no current context''), Suc w))
                    (\<lambda>src w. (Inr 7, w)) Py_None MlirDefaultingCaster_new (0::nat))) = 1"
    and "fst (load (\<lambda>w. (Inl (Std_exception ''no current context''), Suc w))
                    (\<lambda>src w. (Inr 7, w)) Py_None MlirDefaultingCaster_new (0::nat))
         = Inl (Std_exception ''no current context'')"
    and "fst (snd (load (\<lambda>w. (Inl (Std_exception ''no current context''), Suc w))
                    (\<lambda>src w. (Inr 7, w)) Py_None MlirDefaultingCaster_new (0::nat)))
         = MlirDefaultingCaster_new"
    by simp_all
  with n show ?thesis
    by (metis prod.collapse)
qed

text \<open>
  Claim C6. When \<open>load\<close> is given a value that is not \<^verbatim>\<open>None\<close> and that
  \<^verbatim>\<open>pybind11::cast\<close> cannot read as the referent type (it throws its
  \<^verbatim>\<open>cast_error\<close>, a \<^verbatim>\<open>std::exception\<close>), \<open>load\<close> returns \<open>false\<close> and raises nothing.
\<close>

theorem load_mismatch_is_soft:
  assumes "\<not> is_none src" and "cast_ref src w = (Inl (Std_exception msg), w')"
  shows "load resolve cast_ref src c w = (Inr False, c, w')"
  using assms by (simp add: load_def)

text \<open>
  The theorem at an object that the cast rejects.
\<close>

theorem load_mismatch_is_soft_witness:
  "\<not> is_none (Py_Object 3)
   \<and> load (\<lambda>w. (Inr 7, w)) (\<lambda>src w. (Inl (Std_exception ''Unable to cast''), w))
        (Py_Object 3) MlirDefaultingCaster_new (0::nat)
     = (Inr False, MlirDefaultingCaster_new, 0)"
proof -
  have n: "\<not> is_none (Py_Object 3)"
    by (simp add: is_none_def)
  from load_mismatch_is_soft [where src = "Py_Object 3"
      and cast_ref = "\<lambda>src w. (Inl (Std_exception ''Unable to cast''), w)"
      and w = "0::nat" and msg = "''Unable to cast''" and w' = 0
      and resolve = "\<lambda>w. (Inr 7, w)" and c = MlirDefaultingCaster_new] n
  show ?thesis
    by simp
qed

text \<open>
  Claim C7. A Defaulting built from a referent returns the referent's address from
  \<open>get\<close>. When \<open>load\<close> is given an object that casts to the referent at address \<open>r\<close>,
  it returns \<open>true\<close> and \<open>get\<close> on the caster's value returns \<open>r\<close>; when it is given
  \<^verbatim>\<open>None\<close> and the resolver returns the referent at \<open>r\<close>, likewise.
\<close>

theorem defaulting_get_bound:
  "get (Defaulting_of r) = Some r
   \<and> (\<not> is_none src \<and> cast_ref src w = (Inr r, w') \<longrightarrow>
        (\<exists>c'. load resolve cast_ref src c w = (Inr True, c', w')
              \<and> get (caster_value c') = Some r))
   \<and> (is_none src \<and> resolve w = (Inr r, w') \<longrightarrow>
        (\<exists>c'. load resolve cast_ref src c w = (Inr True, c', w')
              \<and> get (caster_value c') = Some r))"
  by (simp add: load_def get_def Defaulting_of_def)

text \<open>
  The theorem at an object that casts to address 42 and a resolver that returns
  address 7.
\<close>

theorem defaulting_get_bound_witness:
  "(\<not> is_none (Py_Object 3)
    \<and> (\<exists>c'. load (\<lambda>w. (Inr 7, w)) (\<lambda>src w. (Inr 42, w)) (Py_Object 3)
               MlirDefaultingCaster_new (0::nat) = (Inr True, c', 0)
           \<and> get (caster_value c') = Some 42))
   \<and> (is_none Py_None
    \<and> (\<exists>c'. load (\<lambda>w. (Inr 7, w)) (\<lambda>src w. (Inr 42, w)) Py_None
               MlirDefaultingCaster_new (0::nat) = (Inr True, c', 0)
           \<and> get (caster_value c') = Some 7))"
proof -
  have n: "\<not> is_none (Py_Object 3)" "is_none Py_None"
    by (simp_all add: is_none_def)
  from defaulting_get_bound [of 42 "Py_Object 3" "\<lambda>src w. (Inr 42, w)" "0::nat" 0
      "\<lambda>w. (Inr 7, w)" MlirDefaultingCaster_new] n
  have a: "\<exists>c'. load (\<lambda>w. (Inr 7, w)) (\<lambda>src w. (Inr 42, w)) (Py_Object 3)
               MlirDefaultingCaster_new (0::nat) = (Inr True, c', 0)
           \<and> get (caster_value c') = Some 42"
    by simp
  from defaulting_get_bound [of 7 Py_None "\<lambda>src w. (Inr 42, w)" "0::nat" 0
      "\<lambda>w. (Inr 7, w)" MlirDefaultingCaster_new] n
  have b: "\<exists>c'. load (\<lambda>w. (Inr 7, w)) (\<lambda>src w. (Inr 42, w)) Py_None
               MlirDefaultingCaster_new (0::nat) = (Inr True, c', 0)
           \<and> get (caster_value c') = Some 7"
    by simp
  from a b n show ?thesis
    by blast
qed

end
